theory Spec2Isabelle
  imports Main "HOL-Library.Sublist"
begin

section \<open>GeneratedAssetSymbols.h of ThemeKit\<close>

text \<open>
  The header declares seventeen \<^verbatim>\<open>static NSString * const\<close> constants: the resource
  bundle identifier and one constant per colour of the asset catalog. It has no function,
  no control flow and no state. The embedding keeps each constant as a HOL constant of
  type \<^typ>\<open>string\<close>, and the file itself as the list of its declarations in source
  order, each with the text of its documentation comment, its symbol and the string
  literal bound to it.
\<close>

subsection \<open>The constants\<close>

definition ACBundleID :: string where
  "ACBundleID = ''themekit.ThemeKit''"

definition ACColorNameBubblegum :: string where
  "ACColorNameBubblegum = ''bubblegum''"

definition ACColorNameButtercup :: string where
  "ACColorNameButtercup = ''buttercup''"

definition ACColorNameIndigo :: string where
  "ACColorNameIndigo = ''indigo''"

definition ACColorNameLavender :: string where
  "ACColorNameLavender = ''lavender''"

definition ACColorNameMagenta :: string where
  "ACColorNameMagenta = ''magenta''"

definition ACColorNameNavy :: string where
  "ACColorNameNavy = ''navy''"

definition ACColorNameOrange :: string where
  "ACColorNameOrange = ''orange''"

definition ACColorNameOxblood :: string where
  "ACColorNameOxblood = ''oxblood''"

definition ACColorNamePeriwinkle :: string where
  "ACColorNamePeriwinkle = ''periwinkle''"

definition ACColorNamePoppy :: string where
  "ACColorNamePoppy = ''poppy''"

definition ACColorNamePurple :: string where
  "ACColorNamePurple = ''purple''"

definition ACColorNameSeafoam :: string where
  "ACColorNameSeafoam = ''seafoam''"

definition ACColorNameSky :: string where
  "ACColorNameSky = ''sky''"

definition ACColorNameTan :: string where
  "ACColorNameTan = ''tan''"

definition ACColorNameTeal :: string where
  "ACColorNameTeal = ''teal''"

definition ACColorNameYellow :: string where
  "ACColorNameYellow = ''yellow''"

subsection \<open>The file as a list of declarations\<close>

text \<open>
  One declaration of the header: the text of the \<^verbatim>\<open>///\<close> comment above it, the
  declared symbol, and the value of the string literal on the right of \<^verbatim>\<open>=\<close>.
\<close>

record constant_decl =
  doc :: string
  symbol :: string
  bound :: string

definition declarations :: "constant_decl list" where
  \<open>declarations = [
    \<lparr>doc = ''The resource bundle ID.'',
     symbol = ''ACBundleID'', bound = ACBundleID\<rparr>,
    \<lparr>doc = ''The "bubblegum" asset catalog color resource.'',
     symbol = ''ACColorNameBubblegum'', bound = ACColorNameBubblegum\<rparr>,
    \<lparr>doc = ''The "buttercup" asset catalog color resource.'',
     symbol = ''ACColorNameButtercup'', bound = ACColorNameButtercup\<rparr>,
    \<lparr>doc = ''The "indigo" asset catalog color resource.'',
     symbol = ''ACColorNameIndigo'', bound = ACColorNameIndigo\<rparr>,
    \<lparr>doc = ''The "lavender" asset catalog color resource.'',
     symbol = ''ACColorNameLavender'', bound = ACColorNameLavender\<rparr>,
    \<lparr>doc = ''The "magenta" asset catalog color resource.'',
     symbol = ''ACColorNameMagenta'', bound = ACColorNameMagenta\<rparr>,
    \<lparr>doc = ''The "navy" asset catalog color resource.'',
     symbol = ''ACColorNameNavy'', bound = ACColorNameNavy\<rparr>,
    \<lparr>doc = ''The "orange" asset catalog color resource.'',
     symbol = ''ACColorNameOrange'', bound = ACColorNameOrange\<rparr>,
    \<lparr>doc = ''The "oxblood" asset catalog color resource.'',
     symbol = ''ACColorNameOxblood'', bound = ACColorNameOxblood\<rparr>,
    \<lparr>doc = ''The "periwinkle" asset catalog color resource.'',
     symbol = ''ACColorNamePeriwinkle'', bound = ACColorNamePeriwinkle\<rparr>,
    \<lparr>doc = ''The "poppy" asset catalog color resource.'',
     symbol = ''ACColorNamePoppy'', bound = ACColorNamePoppy\<rparr>,
    \<lparr>doc = ''The "purple" asset catalog color resource.'',
     symbol = ''ACColorNamePurple'', bound = ACColorNamePurple\<rparr>,
    \<lparr>doc = ''The "seafoam" asset catalog color resource.'',
     symbol = ''ACColorNameSeafoam'', bound = ACColorNameSeafoam\<rparr>,
    \<lparr>doc = ''The "sky" asset catalog color resource.'',
     symbol = ''ACColorNameSky'', bound = ACColorNameSky\<rparr>,
    \<lparr>doc = ''The "tan" asset catalog color resource.'',
     symbol = ''ACColorNameTan'', bound = ACColorNameTan\<rparr>,
    \<lparr>doc = ''The "teal" asset catalog color resource.'',
     symbol = ''ACColorNameTeal'', bound = ACColorNameTeal\<rparr>,
    \<lparr>doc = ''The "yellow" asset catalog color resource.'',
     symbol = ''ACColorNameYellow'', bound = ACColorNameYellow\<rparr>]\<close>

text \<open>
  The two kinds of declaration are told apart by the symbol, as the header does: the
  bundle identifier is \<^verbatim>\<open>ACBundleID\<close>, a colour resource name starts with
  \<^verbatim>\<open>ACColorName\<close>.
\<close>

definition is_bundle_id :: "constant_decl \<Rightarrow> bool" where
  "is_bundle_id d \<longleftrightarrow> symbol d = ''ACBundleID''"

definition is_color_name :: "constant_decl \<Rightarrow> bool" where
  "is_color_name d \<longleftrightarrow> prefix ''ACColorName'' (symbol d)"

definition color_declarations :: "constant_decl list" where
  "color_declarations = filter is_color_name declarations"

text \<open>
  The asset that a documentation comment names: the text between its first and its
  second double quote (empty when the comment quotes nothing).
\<close>

definition asset_of_doc :: "string \<Rightarrow> string" where
  "asset_of_doc s =
     takeWhile (\<lambda>c. c \<noteq> CHR 0x22) (tl (dropWhile (\<lambda>c. c \<noteq> CHR 0x22) s))"

subsection \<open>The naming rule between symbol and value\<close>

text \<open>
  The rule that the claims state for colour constants: the symbol is \<^verbatim>\<open>ACColorName\<close>
  followed by a suffix that starts with an upper-case ASCII letter, and the value is the
  suffix with that first letter in lower case. These definitions follow the words of the
  rule; the theorems compare them with the declarations of the header.
\<close>

definition is_upper_ascii :: "char \<Rightarrow> bool" where
  "is_upper_ascii c \<longleftrightarrow> 65 \<le> (of_char c :: nat) \<and> (of_char c :: nat) \<le> 90"

definition lower_ascii :: "char \<Rightarrow> char" where
  "lower_ascii c = (if is_upper_ascii c then char_of (of_char c + 32 :: nat) else c)"

definition color_suffix :: "string \<Rightarrow> string" where
  "color_suffix s = drop (length ''ACColorName'') s"

definition lowercase_first :: "string \<Rightarrow> string" where
  "lowercase_first s = (case s of [] \<Rightarrow> [] | c # cs \<Rightarrow> lower_ascii c # cs)"

definition naming_rule :: "string \<Rightarrow> string" where
  "naming_rule s = lowercase_first (color_suffix s)"

definition follows_convention :: "string \<Rightarrow> bool" where
  "follows_convention s \<longleftrightarrow>
     prefix ''ACColorName'' s
     \<and> (case color_suffix s of [] \<Rightarrow> False | c # cs \<Rightarrow> is_upper_ascii c)"

section \<open>Properties\<close>

lemmas constant_defs =
  ACBundleID_def ACColorNameBubblegum_def ACColorNameButtercup_def ACColorNameIndigo_def
  ACColorNameLavender_def ACColorNameMagenta_def ACColorNameNavy_def ACColorNameOrange_def
  ACColorNameOxblood_def ACColorNamePeriwinkle_def ACColorNamePoppy_def
  ACColorNamePurple_def ACColorNameSeafoam_def ACColorNameSky_def ACColorNameTan_def
  ACColorNameTeal_def ACColorNameYellow_def

lemmas table_defs =
  declarations_def color_declarations_def is_bundle_id_def is_color_name_def

subsection \<open>What is declared\<close>

text \<open>
  C1: every colour constant is bound to the name of the asset it denotes. The colour
  declarations of the header, in source order, are exactly the sixteen pairs listed
  (ACColorNameBubblegum with "bubblegum" down to ACColorNameYellow with "yellow"), and
  each bound value is the asset name quoted in the declaration's documentation comment.
\<close>

theorem color_constants_match_assets:
  "map (\<lambda>d. (symbol d, bound d)) color_declarations =
     [(''ACColorNameBubblegum'', ''bubblegum''), (''ACColorNameButtercup'', ''buttercup''),
      (''ACColorNameIndigo'', ''indigo''), (''ACColorNameLavender'', ''lavender''),
      (''ACColorNameMagenta'', ''magenta''), (''ACColorNameNavy'', ''navy''),
      (''ACColorNameOrange'', ''orange''), (''ACColorNameOxblood'', ''oxblood''),
      (''ACColorNamePeriwinkle'', ''periwinkle''), (''ACColorNamePoppy'', ''poppy''),
      (''ACColorNamePurple'', ''purple''), (''ACColorNameSeafoam'', ''seafoam''),
      (''ACColorNameSky'', ''sky''), (''ACColorNameTan'', ''tan''),
      (''ACColorNameTeal'', ''teal''), (''ACColorNameYellow'', ''yellow'')]
   \<and> map bound color_declarations = map (asset_of_doc \<circ> doc) color_declarations"
  by (simp add: table_defs constant_defs asset_of_doc_def)

text \<open>
  C2: the declared symbols, \<^verbatim>\<open>ACBundleID\<close> and every colour resource name, are
  pairwise distinct: no symbol is declared twice.
\<close>

theorem symbols_distinct: "distinct (map symbol declarations)"
  by (simp add: declarations_def)

text \<open>
  C3: the value bound by every declaration of the header, the bundle identifier and the
  sixteen colour names alike, is a non-empty string.
\<close>

theorem values_nonempty: "\<forall>d \<in> set declarations. bound d \<noteq> []"
  by (simp add: declarations_def constant_defs)

theorem values_nonempty_witness:
  "\<lparr>doc = ''The resource bundle ID.'', symbol = ''ACBundleID'',
     bound = ''themekit.ThemeKit''\<rparr> \<in> set declarations
   \<and> bound \<lparr>doc = ''The resource bundle ID.'', symbol = ''ACBundleID'',
        bound = ''themekit.ThemeKit''\<rparr> \<noteq> []"
  using values_nonempty
    [THEN bspec, of "\<lparr>doc = ''The resource bundle ID.'', symbol = ''ACBundleID'',
       bound = ''themekit.ThemeKit''\<rparr>"]
  by (simp add: declarations_def constant_defs)

text \<open>
  C4: the header declares exactly one bundle identifier constant, \<^verbatim>\<open>ACBundleID\<close>,
  bound to the one string "themekit.ThemeKit"; every declaration that is not a colour
  resource name is that one, and the symbol/value pairs of the header associate
  \<^verbatim>\<open>ACBundleID\<close> with that string.
\<close>

theorem bundle_id_unique:
  "filter is_bundle_id declarations =
     [\<lparr>doc = ''The resource bundle ID.'', symbol = ''ACBundleID'',
       bound = ''themekit.ThemeKit''\<rparr>]
   \<and> filter (\<lambda>d. \<not> is_color_name d) declarations = filter is_bundle_id declarations
   \<and> ACBundleID = ''themekit.ThemeKit''
   \<and> map_of (map (\<lambda>d. (symbol d, bound d)) declarations) ''ACBundleID''
       = Some ''themekit.ThemeKit''"
  by (simp add: table_defs constant_defs)

text \<open>
  C8: the header declares exactly seventeen constants, one of them the bundle identifier
  and sixteen of them colour resource names, and no declaration is of both kinds or of
  neither.
\<close>

theorem declarations_count:
  "length declarations = 17
   \<and> length (filter is_bundle_id declarations) = 1
   \<and> length color_declarations = 16
   \<and> filter (\<lambda>d. is_bundle_id d = is_color_name d) declarations = []"
  by (simp add: table_defs)

text \<open>
  C9: the bound values of the seventeen declarations are pairwise distinct: no two
  constants are bound to the same string.
\<close>

theorem values_distinct: "distinct (map bound declarations)"
  by (simp add: declarations_def constant_defs)

subsection \<open>The naming rule\<close>

lemma lower_ascii_inj:
  assumes "is_upper_ascii c" and "is_upper_ascii d" and "lower_ascii c = lower_ascii d"
  shows "c = d"
proof -
  from assms have "char_of (of_char c + 32 :: nat) = char_of (of_char d + 32 :: nat)"
    by (simp add: lower_ascii_def)
  then have "(of_char (char_of (of_char c + 32 :: nat)) :: nat)
      = of_char (char_of (of_char d + 32 :: nat))"
    by simp
  with assms(1,2) have "(of_char c :: nat) = of_char d"
    unfolding is_upper_ascii_def by (simp only: of_char_of) simp
  then show ?thesis by simp
qed

lemma naming_rule_inj: "inj_on naming_rule {s. follows_convention s}"
proof (rule inj_onI)
  fix s t
  assume "s \<in> {s. follows_convention s}" and "t \<in> {s. follows_convention s}"
    and eq: "naming_rule s = naming_rule t"
  then have cs: "follows_convention s" and ct: "follows_convention t" by simp_all
  from cs obtain c cs' where s: "color_suffix s = c # cs'" and uc: "is_upper_ascii c"
    by (auto simp: follows_convention_def split: list.splits)
  from ct obtain d ds' where t: "color_suffix t = d # ds'" and ud: "is_upper_ascii d"
    by (auto simp: follows_convention_def split: list.splits)
  from eq s t have "lower_ascii c = lower_ascii d" and "cs' = ds'"
    by (simp_all add: naming_rule_def lowercase_first_def)
  with uc ud have "color_suffix s = color_suffix t"
    using lower_ascii_inj s t by simp
  moreover from cs have "s = ''ACColorName'' @ color_suffix s"
    unfolding follows_convention_def color_suffix_def prefix_def by auto
  moreover from ct have "t = ''ACColorName'' @ color_suffix t"
    unfolding follows_convention_def color_suffix_def prefix_def by auto
  ultimately show "s = t" by metis
qed

lemma declared_follow_rule:
  "list_all (\<lambda>d. follows_convention (symbol d) \<and> bound d = naming_rule (symbol d))
     color_declarations"
  by code_simp

text \<open>
  C10: the symbol of a colour constant determines its value. Every colour declaration has
  a symbol of the form \<^verbatim>\<open>ACColorName<Suffix>\<close> with a capitalised suffix and is bound to
  the suffix with its first letter in lower case, and on the symbols of that form this
  renaming is injective.
\<close>

theorem color_naming_rule:
  "(\<forall>d \<in> set color_declarations.
      follows_convention (symbol d) \<and> bound d = naming_rule (symbol d))
   \<and> inj_on naming_rule {s. follows_convention s}"
  using declared_follow_rule naming_rule_inj by (simp add: list_all_iff)

theorem color_naming_rule_witness:
  \<open>\<lparr>doc = ''The "periwinkle" asset catalog color resource.'',
     symbol = ''ACColorNamePeriwinkle'', bound = ''periwinkle''\<rparr> \<in> set color_declarations
   \<and> follows_convention ''ACColorNamePeriwinkle''
   \<and> naming_rule ''ACColorNamePeriwinkle'' = ''periwinkle''
   \<and> follows_convention ''ACColorNameSky''
   \<and> naming_rule ''ACColorNameSky'' \<noteq> naming_rule ''ACColorNamePeriwinkle''\<close>
proof -
  let ?p = \<open>\<lparr>doc = ''The "periwinkle" asset catalog color resource.'',
    symbol = ''ACColorNamePeriwinkle'', bound = ''periwinkle''\<rparr>\<close>
  have mem: "?p \<in> set color_declarations"
    by (simp add: table_defs constant_defs)
  with color_naming_rule
  have rule: "follows_convention (symbol ?p) \<and> bound ?p = naming_rule (symbol ?p)"
    by blast
  have sky: "follows_convention ''ACColorNameSky''"
    by code_simp
  from color_naming_rule have "inj_on naming_rule {s. follows_convention s}" ..
  with sky rule
  have "naming_rule ''ACColorNameSky'' \<noteq> naming_rule ''ACColorNamePeriwinkle''"
    by (auto dest: inj_onD)
  with mem rule sky show ?thesis by simp
qed

end
